theory Spec2Isabelle
  imports Main
begin

section \<open>JavaScript values reaching the controllers\<close>

text \<open>
  The controllers receive rejection values from the remote calls and inspect them with
  \<^verbatim>\<open>Array.isArray\<close>, \<^verbatim>\<open>typeof\<close>, property reads and \<^verbatim>\<open>join\<close>. The values are modelled as
  far as those operations look: undefined, null, booleans, strings, arrays and plain
  objects (a property list, first binding wins). Numbers and functions are left out; no
  operation of the controllers below computes with them.
\<close>

datatype jsval =
    JUndefined
  | JNull
  | JBool bool
  | JStr string
  | JArr "jsval list"
  | JObj "(string \<times> jsval) list"

text \<open>The only exception the engine itself raises in this code: a property read on
  undefined or null.\<close>

datatype exn = TypeError

text \<open>
  \<^verbatim>\<open>v.k\<close> for the property names the source reads (\<^verbatim>\<open>body\<close>, \<^verbatim>\<open>message\<close>), which no
  built-in prototype defines: undefined and null throw, an object yields the bound value
  or undefined, every other value yields undefined.
\<close>

fun get_prop :: "jsval \<Rightarrow> string \<Rightarrow> exn + jsval" where
  "get_prop JUndefined k = Inl TypeError"
| "get_prop JNull k = Inl TypeError"
| "get_prop (JObj kvs) k = Inr (case map_of kvs k of None \<Rightarrow> JUndefined | Some v \<Rightarrow> v)"
| "get_prop (JBool b) k = Inr JUndefined"
| "get_prop (JStr s) k = Inr JUndefined"
| "get_prop (JArr xs) k = Inr JUndefined"

fun truthy :: "jsval \<Rightarrow> bool" where
  "truthy JUndefined = False"
| "truthy JNull = False"
| "truthy (JBool b) = b"
| "truthy (JStr s) = (s \<noteq> [])"
| "truthy (JArr xs) = True"
| "truthy (JObj kvs) = True"

fun isArray :: "jsval \<Rightarrow> bool" where
  "isArray (JArr xs) = True"
| "isArray v = False"

fun intercalate :: "string \<Rightarrow> string list \<Rightarrow> string" where
  "intercalate sep [] = []"
| "intercalate sep [x] = x"
| "intercalate sep (x # y # ys) = x @ sep @ intercalate sep (y # ys)"

text \<open>Evaluating a list of fallible results from left to right: the first exception
  wins.\<close>

fun sequence :: "(exn + 'a) list \<Rightarrow> exn + 'a list" where
  "sequence [] = Inr []"
| "sequence (Inl x # rs) = Inl x"
| "sequence (Inr v # rs) = (case sequence rs of Inl x \<Rightarrow> Inl x | Inr vs \<Rightarrow> Inr (v # vs))"

text \<open>
  \<^verbatim>\<open>String(v)\<close>. An array prints as its elements joined by commas. A plain object prints
  as \<^verbatim>\<open>[object Object]\<close> through the inherited \<^verbatim>\<open>toString\<close>; an object with an own
  \<^verbatim>\<open>toString\<close> property (which cannot be a function here) has no usable conversion
  and the engine throws a TypeError. Inside an array's \<^verbatim>\<open>join\<close> undefined and null print
  as the empty string.
\<close>

fun to_string :: "jsval \<Rightarrow> exn + string" where
  "to_string JUndefined = Inr ''undefined''"
| "to_string JNull = Inr ''null''"
| "to_string (JBool b) = Inr (if b then ''true'' else ''false'')"
| "to_string (JStr s) = Inr s"
| "to_string (JArr xs) =
     (case sequence
             (map (\<lambda>x. if x = JUndefined \<or> x = JNull then Inr [] else to_string x) xs) of
        Inl x \<Rightarrow> Inl x
      | Inr ss \<Rightarrow> Inr (intercalate '','' ss))"
| "to_string (JObj kvs) =
     (case map_of kvs ''toString'' of
        None \<Rightarrow> Inr ''[object Object]''
      | Some v \<Rightarrow> Inl TypeError)"

definition join :: "jsval list \<Rightarrow> string \<Rightarrow> exn + string" where
  "join xs sep =
     (case sequence
             (map (\<lambda>x. if x = JUndefined \<or> x = JNull then Inr [] else to_string x) xs) of
        Inl x \<Rightarrow> Inl x
      | Inr ss \<Rightarrow> Inr (intercalate sep ss))"

text \<open>
  \<^verbatim>\<open>s.slice(start, stop)\<close> on a string: a negative index counts from the end, both
  indices are clamped to the string, an empty span gives the empty string.
\<close>

definition slice :: "string \<Rightarrow> int \<Rightarrow> int \<Rightarrow> string" where
  "slice s start stop =
     (let len = int (length s);
          from = (if start < 0 then max (len + start) 0 else min start len);
          to = (if stop < 0 then max (len + stop) 0 else min stop len)
      in take (nat (to - from)) (drop (nat from) s))"

section \<open>The trusted-URL form (CspTrustedSiteForm)\<close>

definition UI_CONNECTOR :: string where
  "UI_CONNECTOR = ''ui_connector''"

definition UI_CONNECTOR_WSS :: string where
  "UI_CONNECTOR_WSS = ''ui_connector_wss''"

definition TWILIO_FLEX :: string where
  "TWILIO_FLEX = ''twilio_flex''"

text \<open>A record of the list that \<^verbatim>\<open>getCSPs\<close> returns. \<^verbatim>\<open>IsActive\<close> is the platform's
  boolean field (the table column that shows it has type boolean).\<close>

record csp =
  csp_Id :: string
  DeveloperName :: string
  EndpointUrl :: string
  IsActive :: bool

text \<open>What the wire service hands to \<^verbatim>\<open>wiredResources\<close>: \<^verbatim>\<open>data\<close> is an array of records
  or not an array at all (\<open>None\<close>), \<^verbatim>\<open>error\<close> is any value (undefined when there is none).\<close>

record wire_result =
  wire_data :: "csp list option"
  wire_error :: jsval

record toast =
  title :: string
  message :: string
  variant :: "string option"

record request =
  siteUrl :: string
  siteName :: string

record table_row =
  developerName :: string
  endpoint :: string
  isActive :: bool
  settingsUrl :: string

text \<open>
  The component's fields, followed by a log of what it did to its collaborators: the
  toasts it dispatched, the \<^verbatim>\<open>console.error\<close> lines, the \<^verbatim>\<open>createTrustedSite\<close> calls and
  the arguments of its \<^verbatim>\<open>refreshApex\<close> calls, each in the order of occurrence.
\<close>

record component =
  isLoading :: bool
  uiConnector :: string
  uiConnectorWss :: string
  inactiveTrustedUrlNames :: "string list"
  csps :: "csp list"
  checkboxGroupValue :: "string list"
  isUIConnectorFieldVisible :: bool
  isUIConnectorWSFieldVisible :: bool
  isTwilioFlexFieldVisible :: bool
  isDataTableVisible :: bool
  isApplyBtnDisabled :: bool
  wiredResult :: "wire_result option"
  toasts :: "toast list"
  console_errors :: "(string \<times> jsval list) list"
  createTrustedSite_calls :: "request list"
  refreshApex_calls :: "wire_result option list"

text \<open>The field initialisers of the class.\<close>

definition init :: component where
  "init = \<lparr> isLoading = False, uiConnector = [], uiConnectorWss = [],
            inactiveTrustedUrlNames = [], csps = [], checkboxGroupValue = [],
            isUIConnectorFieldVisible = True, isUIConnectorWSFieldVisible = True,
            isTwilioFlexFieldVisible = True, isDataTableVisible = False,
            isApplyBtnDisabled = False, wiredResult = None,
            toasts = [], console_errors = [], createTrustedSite_calls = [],
            refreshApex_calls = [] \<rparr>"

definition showToast :: "string \<Rightarrow> string \<Rightarrow> string option \<Rightarrow> component \<Rightarrow> component" where
  "showToast t m v s = s\<lparr> toasts := toasts s @ [\<lparr> title = t, message = m, variant = v \<rparr>] \<rparr>"

definition console_error :: "string \<Rightarrow> jsval list \<Rightarrow> component \<Rightarrow> component" where
  "console_error m args s = s\<lparr> console_errors := console_errors s @ [(m, args)] \<rparr>"

subsection \<open>wiredResources\<close>

text \<open>The callback of \<^verbatim>\<open>this.csps.forEach\<close>: it works on the component and on the local
  list \<^verbatim>\<open>initialFields\<close>.\<close>

definition forEach_csp :: "csp \<Rightarrow> component \<times> string list \<Rightarrow> component \<times> string list" where
  "forEach_csp c acc =
     (let s = fst acc; initialFields = snd acc;
          s1 = (if \<not> IsActive c
                then s\<lparr> inactiveTrustedUrlNames := inactiveTrustedUrlNames s @ [DeveloperName c] \<rparr>
                else s)
      in if DeveloperName c = UI_CONNECTOR
         then (s1\<lparr> isUIConnectorFieldVisible := False \<rparr>, initialFields @ [UI_CONNECTOR])
         else if DeveloperName c = UI_CONNECTOR_WSS
         then (s1\<lparr> isUIConnectorWSFieldVisible := False \<rparr>, initialFields @ [UI_CONNECTOR_WSS])
         else if DeveloperName c = TWILIO_FLEX
         then (s1\<lparr> isTwilioFlexFieldVisible := False \<rparr>, initialFields @ [TWILIO_FLEX])
         else (s1, initialFields))"

fun forEach :: "csp list \<Rightarrow> component \<times> string list \<Rightarrow> component \<times> string list" where
  "forEach [] acc = acc"
| "forEach (c # cs) acc = forEach cs (forEach_csp c acc)"

definition wiredResources :: "wire_result \<Rightarrow> component \<Rightarrow> component" where
  "wiredResources result s =
     (let s0 = s\<lparr> wiredResult := Some result \<rparr>;
          s1 = (if truthy (wire_error result)
                then console_error ''Error checking if external client app exists:''
                       [wire_error result] s0
                else s0)
      in case wire_data result of
           None \<Rightarrow> s1
         | Some [] \<Rightarrow> s1
         | Some (d # ds) \<Rightarrow>
             (let s2 = s1\<lparr> csps := d # ds \<rparr>;
                  r = forEach (d # ds) (s2, []);
                  s3 = fst r; initialFields = snd r;
                  s4 = s3\<lparr> isDataTableVisible :=
                         list_ex (\<lambda>field. field \<in> set initialFields)
                           [UI_CONNECTOR_WSS, UI_CONNECTOR, TWILIO_FLEX] \<rparr>
              in s4\<lparr> isApplyBtnDisabled :=
                       list_all (\<lambda>field. field \<in> set initialFields)
                         [UI_CONNECTOR_WSS, UI_CONNECTOR, TWILIO_FLEX] \<rparr>))"

subsection \<open>Getters\<close>

definition dataTableData :: "component \<Rightarrow> table_row list" where
  "dataTableData s =
     map (\<lambda>c. \<lparr> developerName = DeveloperName c, endpoint = EndpointUrl c,
                isActive = IsActive c,
                settingsUrl = ''/lightning/setup/SecurityCspTrustedSite/page?address=%2F''
                                @ slice (csp_Id c) 0 (- 3) \<rparr>)
       (csps s)"

definition numberOfInactiveUrls :: "component \<Rightarrow> nat" where
  "numberOfInactiveUrls s = length (inactiveTrustedUrlNames s)"

definition inactiveUrlNames :: "component \<Rightarrow> string" where
  "inactiveUrlNames s = intercalate '', '' (inactiveTrustedUrlNames s)"

subsection \<open>Input handlers\<close>

text \<open>\<^verbatim>\<open>handleUrlChange\<close> reads \<^verbatim>\<open>event.target.name\<close> and \<^verbatim>\<open>event.target.value\<close>.\<close>

definition handleUrlChange :: "string \<Rightarrow> string \<Rightarrow> component \<Rightarrow> component" where
  "handleUrlChange name val s =
     (if name = UI_CONNECTOR then s\<lparr> uiConnector := val \<rparr>
      else if name = UI_CONNECTOR_WSS then s\<lparr> uiConnectorWss := val \<rparr>
      else s)"

definition handleCheckbox :: "string list \<Rightarrow> component \<Rightarrow> component" where
  "handleCheckbox val s = s\<lparr> checkboxGroupValue := val \<rparr>"

subsection \<open>Submission\<close>

text \<open>
  A remote call's promise either fulfils or rejects with a reason; the number is the
  instant at which it rejects. \<^verbatim>\<open>Promise.all\<close> fulfils when every promise does and
  otherwise rejects with the reason of the promise that rejects first (the earlier one in
  the list when two reject at the same instant).
\<close>

datatype settled = Fulfilled | Rejected nat jsval

fun first_rejection :: "settled list \<Rightarrow> (nat \<times> jsval) option" where
  "first_rejection [] = None"
| "first_rejection (Fulfilled # ps) = first_rejection ps"
| "first_rejection (Rejected t e # ps) =
     (case first_rejection ps of
        None \<Rightarrow> Some (t, e)
      | Some (t', e') \<Rightarrow> if t' < t then Some (t', e') else Some (t, e))"

definition promise_all :: "settled list \<Rightarrow> jsval option" where
  "promise_all ps = map_option snd (first_rejection ps)"

text \<open>The requests \<^verbatim>\<open>onCreateTrustedUrls\<close> pushes onto \<^verbatim>\<open>creators\<close>, in order.\<close>

definition creators :: "component \<Rightarrow> request list" where
  "creators s =
     (if uiConnector s \<noteq> []
      then [\<lparr> siteUrl = uiConnector s, siteName = UI_CONNECTOR \<rparr>] else [])
     @ (if uiConnectorWss s \<noteq> []
        then [\<lparr> siteUrl = uiConnectorWss s, siteName = UI_CONNECTOR_WSS \<rparr>] else [])
     @ (if TWILIO_FLEX \<in> set (checkboxGroupValue s)
        then [\<lparr> siteUrl = ''https://flex.twilio.com'', siteName = TWILIO_FLEX \<rparr>] else [])"

text \<open>\<^verbatim>\<open>onCreateTrustedUrls\<close>, given how the remote procedure answers each request: every
  pushed request is a call made; the result is the outcome of \<^verbatim>\<open>Promise.all\<close>
  (\<open>None\<close> when it fulfils).\<close>

definition onCreateTrustedUrls ::
  "(request \<Rightarrow> settled) \<Rightarrow> component \<Rightarrow> jsval option \<times> component" where
  "onCreateTrustedUrls createTrustedSite s =
     (promise_all (map createTrustedSite (creators s)),
      s\<lparr> createTrustedSite_calls := createTrustedSite_calls s @ creators s \<rparr>)"

text \<open>The submit event as \<^verbatim>\<open>handleSubmit\<close> looks at it.\<close>

record submit_event =
  target_is_form :: bool
  checkValidity :: bool

text \<open>\<^verbatim>\<open>refreshApex\<close> rejects with a reason, or fulfils, after the wire service has
  provisioned a new result to \<^verbatim>\<open>wiredResources\<close> (\<open>Some\<close>) or nothing (\<open>None\<close>).\<close>

datatype refreshed = RefreshRejected jsval | RefreshFulfilled "wire_result option"

record remote =
  createTrustedSite :: "request \<Rightarrow> settled"
  refreshApex :: refreshed

datatype completion = Returned | Threw exn

text \<open>The \<^verbatim>\<open>try\<close> block: \<open>Some e\<close> is the value thrown into \<^verbatim>\<open>catch\<close>.\<close>

definition try_block :: "remote \<Rightarrow> component \<Rightarrow> jsval option \<times> component" where
  "try_block env s =
     (let r = onCreateTrustedUrls (createTrustedSite env) s; s1 = snd r
      in case fst r of
           Some e \<Rightarrow> (Some e, s1)
         | None \<Rightarrow>
             (let s2 = showToast ''Success'' ''Trusted Site created successfully''
                         (Some ''success'') s1;
                  s3 = s2\<lparr> refreshApex_calls := refreshApex_calls s2 @ [wiredResult s2] \<rparr>
              in case refreshApex env of
                   RefreshRejected e \<Rightarrow> (Some e, s3)
                 | RefreshFulfilled w \<Rightarrow>
                     (let s4 = (case w of None \<Rightarrow> s3 | Some res \<Rightarrow> wiredResources res s3)
                      in (None, s4\<lparr> uiConnectorWss := [], uiConnector := [],
                                    checkboxGroupValue := [] \<rparr>))))"

text \<open>\<^verbatim>\<open>error.body.map((e) => e.message)\<close>.\<close>

fun map_message :: "jsval list \<Rightarrow> exn + jsval list" where
  "map_message [] = Inr []"
| "map_message (e # es) =
     (case get_prop e ''message'' of
        Inl x \<Rightarrow> Inl x
      | Inr m \<Rightarrow> (case map_message es of Inl x \<Rightarrow> Inl x | Inr ms \<Rightarrow> Inr (m # ms)))"

text \<open>The message the \<^verbatim>\<open>catch\<close> block computes, or the exception it raises on the way.\<close>

definition error_message :: "jsval \<Rightarrow> exn + string" where
  "error_message error =
     (case get_prop error ''body'' of
        Inl x \<Rightarrow> Inl x
      | Inr body \<Rightarrow>
          (case body of
             JArr es \<Rightarrow>
               (case map_message es of Inl x \<Rightarrow> Inl x | Inr ms \<Rightarrow> join ms '', '')
           | _ \<Rightarrow>
               (case get_prop body ''message'' of
                  Inl x \<Rightarrow> Inl x
                | Inr m \<Rightarrow> (case m of JStr msg \<Rightarrow> Inr msg | _ \<Rightarrow> Inr ''Unknown error''))))"

definition catch_block :: "jsval \<Rightarrow> component \<Rightarrow> completion \<times> component" where
  "catch_block error s =
     (case error_message error of
        Inl x \<Rightarrow> (Threw x, s)
      | Inr msg \<Rightarrow>
          (let s1 = showToast ''Error'' (''Error creating site: '' @ msg) (Some ''error'') s;
               s2 = console_error ''Error creating site:'' [error] s1
           in (Returned, s2\<lparr> isApplyBtnDisabled := False \<rparr>)))"

text \<open>\<^verbatim>\<open>handleSubmit\<close>: how the call completes (\<open>Threw\<close> when an exception leaves it) and the
  component afterwards. The \<^verbatim>\<open>finally\<close> block runs on every way out of \<^verbatim>\<open>try\<close>. Each
  \<^verbatim>\<open>await\<close> is resolved by the outcome the remote side delivers; no other handler of the
  component runs in between, except \<^verbatim>\<open>wiredResources\<close> when the refresh provisions a
  result.\<close>

definition handleSubmit :: "submit_event \<Rightarrow> remote \<Rightarrow> component \<Rightarrow> completion \<times> component" where
  "handleSubmit event env s =
     (if \<not> target_is_form event
      then (Returned, console_error ''Event target must be instanceof HTMLFormElement.'' [] s)
      else if \<not> checkValidity event
      then (Returned,
            showToast ''Error''
              ''Form cannot be submitted due to errors. Please check your Trusted URL fields and try again.''
              None s)
      else
        (let s1 = s\<lparr> isLoading := True \<rparr>;
             s2 = s1\<lparr> isApplyBtnDisabled := True \<rparr>;
             t = try_block env s2
         in case fst t of
              None \<Rightarrow> (Returned, (snd t)\<lparr> isLoading := False \<rparr>)
            | Some e \<Rightarrow>
                (let c = catch_block e (snd t)
                 in (fst c, (snd c)\<lparr> isLoading := False \<rparr>))))"

section \<open>The external-client-app form\<close>

text \<open>\<^verbatim>\<open>handleNavigateToEcaSettings\<close> opens a window; the result is the pair of arguments
  of \<^verbatim>\<open>window.open\<close> for the component's \<^verbatim>\<open>ecaId\<close>.\<close>

definition handleNavigateToEcaSettings :: "string \<Rightarrow> string \<times> string" where
  "handleNavigateToEcaSettings ecaId =
     (''/lightning/setup/ManageExternalClientApplication/'' @ slice ecaId 0 (- 3) @ ''/detail/'',
      ''_blank'')"

section \<open>Example inputs\<close>

definition example_csp :: csp where
  "example_csp = \<lparr> csp_Id = ''081Ws000000abcdEAA'', DeveloperName = ''ui_connector'',
       EndpointUrl = ''https://ui.example.com'', IsActive = True \<rparr>"

definition valid_event :: submit_event where
  "valid_event = \<lparr> target_is_form = True, checkValidity = True \<rparr>"

definition invalid_event :: submit_event where
  "invalid_event = \<lparr> target_is_form = True, checkValidity = False \<rparr>"

definition always_fulfilled :: "request \<Rightarrow> settled" where
  "always_fulfilled r = Fulfilled"

text \<open>Every creation succeeds and the refresh provisions nothing new.\<close>

definition all_fulfilled :: remote where
  "all_fulfilled = \<lparr> createTrustedSite = always_fulfilled, refreshApex = RefreshFulfilled None \<rparr>"

text \<open>The user has filled both text fields and ticked the checkbox.\<close>

definition typed_all :: component where
  "typed_all = init\<lparr> uiConnector := ''https://ui.example.com'',
                     uiConnectorWss := ''wss://ui.example.com'',
                     checkboxGroupValue := [''twilio_flex''] \<rparr>"

definition ui_inactive :: csp where
  "ui_inactive = \<lparr> csp_Id = ''081Ws000000abcdEAA'', DeveloperName = ''ui_connector'',
       EndpointUrl = ''https://ui.example.com'', IsActive = False \<rparr>"

definition wss_active :: csp where
  "wss_active = \<lparr> csp_Id = ''081Ws000000efghEAA'', DeveloperName = ''ui_connector_wss'',
       EndpointUrl = ''wss://ui.example.com'', IsActive = True \<rparr>"

text \<open>A trusted URL that the form's catalog does not know.\<close>

definition foreign_inactive :: csp where
  "foreign_inactive = \<lparr> csp_Id = ''081Ws000000ijklEAA'', DeveloperName = ''salesforce_domain'',
       EndpointUrl = ''https://org.example.com'', IsActive = False \<rparr>"

text \<open>A wire result that carries data and no error.\<close>

definition snapshot :: "csp list \<Rightarrow> wire_result" where
  "snapshot cs = \<lparr> wire_data = Some cs, wire_error = JUndefined \<rparr>"

text \<open>The user has filled the first text field only.\<close>

definition typed_ui :: component where
  "typed_ui = init\<lparr> uiConnector := ''https://ui.example.com'' \<rparr>"

text \<open>A rejection value shaped like a JavaScript \<^verbatim>\<open>Error\<close>: it has a message and no
  body.\<close>

definition js_error :: jsval where
  "js_error = JObj [(''message'', JStr ''Failed to fetch'')]"

text \<open>A rejection value whose body is an array with one message.\<close>

definition duplicate_error :: jsval where
  "duplicate_error = JObj [(''body'', JArr [JObj [(''message'', JStr ''duplicate'')]])]"

definition reject_wss_with :: "jsval \<Rightarrow> request \<Rightarrow> settled" where
  "reject_wss_with e r = (if siteName r = UI_CONNECTOR_WSS then Rejected 0 e else Fulfilled)"

definition always_rejected :: "jsval \<Rightarrow> request \<Rightarrow> settled" where
  "always_rejected e r = Rejected 0 e"

text \<open>Only the creation of \<^verbatim>\<open>ui_connector_wss\<close> fails.\<close>

definition wss_rejected :: "jsval \<Rightarrow> remote" where
  "wss_rejected e = \<lparr> createTrustedSite = reject_wss_with e, refreshApex = RefreshFulfilled None \<rparr>"

definition all_rejected :: "jsval \<Rightarrow> remote" where
  "all_rejected e = \<lparr> createTrustedSite = always_rejected e, refreshApex = RefreshFulfilled None \<rparr>"

text \<open>Every creation succeeds and the refresh fails.\<close>

definition refresh_rejected :: "jsval \<Rightarrow> remote" where
  "refresh_rejected e = \<lparr> createTrustedSite = always_fulfilled, refreshApex = RefreshRejected e \<rparr>"

section \<open>Facts about the helpers\<close>

lemma slice_drop_last3: "slice s 0 (- 3) = take (length s - 3) s"
  by (simp add: slice_def Let_def max_def nat_diff_distrib' flip: of_nat_diff)

lemma catalog_distinct:
  "UI_CONNECTOR \<noteq> UI_CONNECTOR_WSS" "UI_CONNECTOR \<noteq> TWILIO_FLEX"
  "UI_CONNECTOR_WSS \<noteq> TWILIO_FLEX" "UI_CONNECTOR_WSS \<noteq> UI_CONNECTOR"
  "TWILIO_FLEX \<noteq> UI_CONNECTOR" "TWILIO_FLEX \<noteq> UI_CONNECTOR_WSS"
  by (simp_all add: UI_CONNECTOR_def UI_CONNECTOR_WSS_def TWILIO_FLEX_def)

subsection \<open>The loop over the snapshot\<close>

lemma forEach_csp_inactive:
  "inactiveTrustedUrlNames (fst (forEach_csp c acc)) =
     inactiveTrustedUrlNames (fst acc) @ (if IsActive c then [] else [DeveloperName c])"
  by (simp add: forEach_csp_def Let_def)

lemma forEach_csp_fields:
  "snd (forEach_csp c acc) =
     snd acc @ (if DeveloperName c \<in> {UI_CONNECTOR, UI_CONNECTOR_WSS, TWILIO_FLEX}
          then [DeveloperName c] else [])"
  by (simp add: forEach_csp_def Let_def)

lemma forEach_csp_visible:
  "isUIConnectorFieldVisible (fst (forEach_csp c acc)) =
     (isUIConnectorFieldVisible (fst acc) \<and> DeveloperName c \<noteq> UI_CONNECTOR)"
  "isUIConnectorWSFieldVisible (fst (forEach_csp c acc)) =
     (isUIConnectorWSFieldVisible (fst acc) \<and> DeveloperName c \<noteq> UI_CONNECTOR_WSS)"
  "isTwilioFlexFieldVisible (fst (forEach_csp c acc)) =
     (isTwilioFlexFieldVisible (fst acc) \<and> DeveloperName c \<noteq> TWILIO_FLEX)"
  by (simp_all add: forEach_csp_def Let_def catalog_distinct)

lemma forEach_inactive:
  "inactiveTrustedUrlNames (fst (forEach cs acc)) =
     inactiveTrustedUrlNames (fst acc) @ map DeveloperName (filter (\<lambda>c. \<not> IsActive c) cs)"
  by (induction cs arbitrary: acc) (simp_all add: forEach_csp_inactive)

lemma forEach_fields:
  "snd (forEach cs acc) =
     snd acc @ filter (\<lambda>n. n \<in> {UI_CONNECTOR, UI_CONNECTOR_WSS, TWILIO_FLEX}) (map DeveloperName cs)"
  by (induction cs arbitrary: acc) (simp_all add: forEach_csp_fields)

lemma forEach_visible_ui:
  "isUIConnectorFieldVisible (fst (forEach cs acc)) =
     (isUIConnectorFieldVisible (fst acc) \<and> UI_CONNECTOR \<notin> set (map DeveloperName cs))"
  by (induction cs arbitrary: acc) (auto simp add: forEach_csp_visible)

lemma forEach_visible_wss:
  "isUIConnectorWSFieldVisible (fst (forEach cs acc)) =
     (isUIConnectorWSFieldVisible (fst acc) \<and> UI_CONNECTOR_WSS \<notin> set (map DeveloperName cs))"
  by (induction cs arbitrary: acc) (auto simp add: forEach_csp_visible)

lemma forEach_visible_twilio:
  "isTwilioFlexFieldVisible (fst (forEach cs acc)) =
     (isTwilioFlexFieldVisible (fst acc) \<and> TWILIO_FLEX \<notin> set (map DeveloperName cs))"
  by (induction cs arbitrary: acc) (auto simp add: forEach_csp_visible)

lemma forEach_csp_frame:
  "uiConnector (fst (forEach_csp c acc)) = uiConnector (fst acc)"
  "uiConnectorWss (fst (forEach_csp c acc)) = uiConnectorWss (fst acc)"
  "checkboxGroupValue (fst (forEach_csp c acc)) = checkboxGroupValue (fst acc)"
  "toasts (fst (forEach_csp c acc)) = toasts (fst acc)"
  "createTrustedSite_calls (fst (forEach_csp c acc)) = createTrustedSite_calls (fst acc)"
  "refreshApex_calls (fst (forEach_csp c acc)) = refreshApex_calls (fst acc)"
  "csps (fst (forEach_csp c acc)) = csps (fst acc)"
  by (simp_all add: forEach_csp_def Let_def)

lemma forEach_frame:
  "uiConnector (fst (forEach cs acc)) = uiConnector (fst acc)"
  "uiConnectorWss (fst (forEach cs acc)) = uiConnectorWss (fst acc)"
  "checkboxGroupValue (fst (forEach cs acc)) = checkboxGroupValue (fst acc)"
  "toasts (fst (forEach cs acc)) = toasts (fst acc)"
  "createTrustedSite_calls (fst (forEach cs acc)) = createTrustedSite_calls (fst acc)"
  "refreshApex_calls (fst (forEach cs acc)) = refreshApex_calls (fst acc)"
  "csps (fst (forEach cs acc)) = csps (fst acc)"
  by (induction cs arbitrary: acc) (simp_all add: forEach_csp_frame)


subsection \<open>wiredResources by cases on the data\<close>

lemma wiredResources_no_data:
  assumes "wire_data r = None \<or> wire_data r = Some []"
  shows "wiredResources r s =
     (if truthy (wire_error r)
      then console_error ''Error checking if external client app exists:'' [wire_error r]
             (s\<lparr> wiredResult := Some r \<rparr>)
      else s\<lparr> wiredResult := Some r \<rparr>)"
  using assms by (auto simp add: wiredResources_def Let_def)

lemma wiredResources_data:
  assumes "wire_data r = Some cs" and "cs \<noteq> []"
  shows "wiredResources r s =
     (fst (forEach cs
        ((if truthy (wire_error r)
          then console_error ''Error checking if external client app exists:'' [wire_error r]
                 (s\<lparr> wiredResult := Some r \<rparr>)
          else s\<lparr> wiredResult := Some r \<rparr>)\<lparr> csps := cs \<rparr>, [])))
       \<lparr> isDataTableVisible :=
           list_ex (\<lambda>field. field \<in> set (snd (forEach cs
              ((if truthy (wire_error r)
                then console_error ''Error checking if external client app exists:''
                       [wire_error r] (s\<lparr> wiredResult := Some r \<rparr>)
                else s\<lparr> wiredResult := Some r \<rparr>)\<lparr> csps := cs \<rparr>, []))))
             [UI_CONNECTOR_WSS, UI_CONNECTOR, TWILIO_FLEX],
         isApplyBtnDisabled :=
           list_all (\<lambda>field. field \<in> set (snd (forEach cs
              ((if truthy (wire_error r)
                then console_error ''Error checking if external client app exists:''
                       [wire_error r] (s\<lparr> wiredResult := Some r \<rparr>)
                else s\<lparr> wiredResult := Some r \<rparr>)\<lparr> csps := cs \<rparr>, []))))
             [UI_CONNECTOR_WSS, UI_CONNECTOR, TWILIO_FLEX] \<rparr>"
proof -
  obtain d ds where cs: "cs = d # ds" using assms(2) by (cases cs) auto
  show ?thesis
    unfolding wiredResources_def Let_def using assms(1)
    by (simp only: cs option.case list.case)
qed

lemma wiredResources_frame:
  "uiConnector (wiredResources r s) = uiConnector s"
  "uiConnectorWss (wiredResources r s) = uiConnectorWss s"
  "checkboxGroupValue (wiredResources r s) = checkboxGroupValue s"
  "toasts (wiredResources r s) = toasts s"
  "createTrustedSite_calls (wiredResources r s) = createTrustedSite_calls s"
  "refreshApex_calls (wiredResources r s) = refreshApex_calls s"
proof -
  consider "wire_data r = None \<or> wire_data r = Some []"
    | cs where "wire_data r = Some cs" "cs \<noteq> []"
    by (cases "wire_data r") auto
  then have "uiConnector (wiredResources r s) = uiConnector s
     \<and> uiConnectorWss (wiredResources r s) = uiConnectorWss s
     \<and> checkboxGroupValue (wiredResources r s) = checkboxGroupValue s
     \<and> toasts (wiredResources r s) = toasts s
     \<and> createTrustedSite_calls (wiredResources r s) = createTrustedSite_calls s
     \<and> refreshApex_calls (wiredResources r s) = refreshApex_calls s"
  proof cases
    case 1
    then show ?thesis by (simp add: wiredResources_no_data console_error_def)
  next
    case 2
    then show ?thesis
      by (simp add: wiredResources_data forEach_frame console_error_def del: forEach.simps)
  qed
  then show "uiConnector (wiredResources r s) = uiConnector s"
    "uiConnectorWss (wiredResources r s) = uiConnectorWss s"
    "checkboxGroupValue (wiredResources r s) = checkboxGroupValue s"
    "toasts (wiredResources r s) = toasts s"
    "createTrustedSite_calls (wiredResources r s) = createTrustedSite_calls s"
    "refreshApex_calls (wiredResources r s) = refreshApex_calls s"
    by simp_all
qed

lemma wiredResources_csps:
  assumes "wire_data r = Some cs" and "cs \<noteq> []"
  shows "csps (wiredResources r s) = cs"
  using assms
  by (simp add: wiredResources_data forEach_frame console_error_def del: forEach.simps)

lemma wiredResources_inactive:
  assumes "wire_data r = Some cs"
  shows "inactiveTrustedUrlNames (wiredResources r s) =
     inactiveTrustedUrlNames s @ map DeveloperName (filter (\<lambda>c. \<not> IsActive c) cs)"
proof (cases "cs = []")
  case True
  then show ?thesis using assms by (simp add: wiredResources_no_data console_error_def)
next
  case False
  then show ?thesis using assms
    by (simp add: wiredResources_data forEach_inactive console_error_def del: forEach.simps)
qed

lemma wiredResources_visible:
  assumes "wire_data r = Some cs"
  shows "isUIConnectorFieldVisible (wiredResources r s) =
           (isUIConnectorFieldVisible s \<and> UI_CONNECTOR \<notin> set (map DeveloperName cs))
       \<and> isUIConnectorWSFieldVisible (wiredResources r s) =
           (isUIConnectorWSFieldVisible s \<and> UI_CONNECTOR_WSS \<notin> set (map DeveloperName cs))
       \<and> isTwilioFlexFieldVisible (wiredResources r s) =
           (isTwilioFlexFieldVisible s \<and> TWILIO_FLEX \<notin> set (map DeveloperName cs))"
proof (cases "cs = []")
  case True
  then show ?thesis using assms by (simp add: wiredResources_no_data console_error_def)
next
  case False
  then show ?thesis using assms
    by (simp add: wiredResources_data forEach_visible_ui forEach_visible_wss
          forEach_visible_twilio console_error_def del: forEach.simps)
qed

lemma wiredResources_table:
  assumes "wire_data r = Some cs" and "cs \<noteq> []"
  shows "isDataTableVisible (wiredResources r s) =
           (UI_CONNECTOR \<in> set (map DeveloperName cs) \<or>
            UI_CONNECTOR_WSS \<in> set (map DeveloperName cs) \<or>
            TWILIO_FLEX \<in> set (map DeveloperName cs))
       \<and> isApplyBtnDisabled (wiredResources r s) =
           (UI_CONNECTOR \<in> set (map DeveloperName cs) \<and>
            UI_CONNECTOR_WSS \<in> set (map DeveloperName cs) \<and>
            TWILIO_FLEX \<in> set (map DeveloperName cs))"
proof -
  have f: "\<And>acc n. snd acc = [] \<Longrightarrow> n \<in> {UI_CONNECTOR, UI_CONNECTOR_WSS, TWILIO_FLEX} \<Longrightarrow>
          (n \<in> set (snd (forEach cs acc))) = (n \<in> set (map DeveloperName cs))"
    by (simp add: forEach_fields del: forEach.simps)
  show ?thesis using assms
    by (simp add: wiredResources_data f del: forEach.simps) blast
qed

lemma wiredResources_twice_flags:
  "isUIConnectorFieldVisible (wiredResources r (wiredResources r s)) =
     isUIConnectorFieldVisible (wiredResources r s)
   \<and> isUIConnectorWSFieldVisible (wiredResources r (wiredResources r s)) =
     isUIConnectorWSFieldVisible (wiredResources r s)
   \<and> isTwilioFlexFieldVisible (wiredResources r (wiredResources r s)) =
     isTwilioFlexFieldVisible (wiredResources r s)
   \<and> isDataTableVisible (wiredResources r (wiredResources r s)) =
     isDataTableVisible (wiredResources r s)
   \<and> isApplyBtnDisabled (wiredResources r (wiredResources r s)) =
     isApplyBtnDisabled (wiredResources r s)"
proof -
  consider "wire_data r = None \<or> wire_data r = Some []"
    | cs where "wire_data r = Some cs" "cs \<noteq> []"
    by (cases "wire_data r") auto
  then show ?thesis
  proof cases
    case 1
    then show ?thesis by (simp add: wiredResources_no_data console_error_def)
  next
    case 2
    then show ?thesis
      using wiredResources_visible [of r cs] wiredResources_table [of r cs] by auto
  qed
qed

subsection \<open>The request list\<close>

lemma creators_names:
  "(UI_CONNECTOR \<in> siteName ` set (creators s)) = (uiConnector s \<noteq> [])"
  "(UI_CONNECTOR_WSS \<in> siteName ` set (creators s)) = (uiConnectorWss s \<noteq> [])"
  "(TWILIO_FLEX \<in> siteName ` set (creators s)) = (TWILIO_FLEX \<in> set (checkboxGroupValue s))"
  "siteName ` set (creators s) \<subseteq> {UI_CONNECTOR, UI_CONNECTOR_WSS, TWILIO_FLEX}"
  by (auto simp add: creators_def catalog_distinct)

lemma creators_cong:
  "uiConnector s = uiConnector t \<Longrightarrow> uiConnectorWss s = uiConnectorWss t \<Longrightarrow>
   checkboxGroupValue s = checkboxGroupValue t \<Longrightarrow> creators s = creators t"
  by (simp add: creators_def)

lemma creators_submit_prefix:
  "creators (s\<lparr> isLoading := a, isApplyBtnDisabled := b \<rparr>) = creators s"
  by (simp add: creators_def)

lemma creators_typed_all:
  "creators typed_all =
     [\<lparr> siteUrl = ''https://ui.example.com'', siteName = UI_CONNECTOR \<rparr>,
      \<lparr> siteUrl = ''wss://ui.example.com'', siteName = UI_CONNECTOR_WSS \<rparr>,
      \<lparr> siteUrl = ''https://flex.twilio.com'', siteName = TWILIO_FLEX \<rparr>]"
  by (simp add: creators_def typed_all_def init_def TWILIO_FLEX_def)

lemma creators_typed_ui:
  "creators typed_ui = [\<lparr> siteUrl = ''https://ui.example.com'', siteName = UI_CONNECTOR \<rparr>]"
  by (simp add: creators_def typed_ui_def init_def)

subsection \<open>Promise.all\<close>


lemma first_rejection_Some:
  "first_rejection ps = Some (t, e) \<Longrightarrow> Rejected t e \<in> set ps"
proof (induction ps arbitrary: t e)
  case Nil
  then show ?case by simp
next
  case (Cons p ps)
  then show ?case by (cases p) (auto split: option.splits if_splits)
qed


lemma promise_all_Some:
  "promise_all ps = Some e \<Longrightarrow> \<exists>t. Rejected t e \<in> set ps"
  by (auto simp add: promise_all_def dest: first_rejection_Some)

subsection \<open>The message of the catch block\<close>

lemma error_message_array:
  assumes "get_prop e ''body'' = Inr (JArr es)" and "map_message es = Inr ms"
  shows "error_message e = join ms '', ''"
  using assms by (simp add: error_message_def)

lemma error_message_string:
  assumes "get_prop e ''body'' = Inr b" and "\<not> isArray b"
    and "get_prop b ''message'' = Inr (JStr m)"
  shows "error_message e = Inr m"
  using assms by (cases b) (simp_all add: error_message_def)

lemma error_message_fallback:
  assumes "get_prop e ''body'' = Inr b" and "\<not> isArray b"
    and "get_prop b ''message'' = Inr v" and "\<forall>m. v \<noteq> JStr m"
  shows "error_message e = Inr ''Unknown error''"
  using assms by (cases b; cases v) (simp_all add: error_message_def)

lemma error_message_no_body:
  assumes "get_prop e ''body'' = Inr JUndefined \<or> get_prop e ''body'' = Inr JNull"
  shows "error_message e = Inl TypeError"
  using assms by (auto simp add: error_message_def)

lemma map_message_objects:
  "map_message (map (\<lambda>m. JObj [(''message'', JStr m)]) ms) = Inr (map JStr ms)"
  by (induction ms) simp_all

lemma sequence_all_values: "sequence (map Inr vs) = Inr vs"
  by (induction vs) simp_all

lemma join_strings: "join (map JStr ms) sep = Inr (intercalate sep ms)"
proof -
  have "map (\<lambda>x. if x = JUndefined \<or> x = JNull then Inr [] else to_string x) (map JStr ms)
          = map Inr ms"
    by simp
  then show ?thesis
    by (simp only: join_def sequence_all_values sum.case)
qed

text \<open>A message that is an object with an own \<^verbatim>\<open>toString\<close> property cannot be joined:
  the conversion throws.\<close>

lemma join_own_toString:
  "join [JObj [(''toString'', JNull)]] '', '' = Inl TypeError"
  by (simp add: join_def)

lemma error_message_own_toString:
  "error_message (JObj [(''body'', JArr [JObj [(''message'', JObj [(''toString'', JNull)])]])])
     = Inl TypeError"
  by (simp add: error_message_def join_def)

lemma error_message_message_array:
  "error_message (JObj [(''body'', JArr (map (\<lambda>m. JObj [(''message'', JStr m)]) ms))]) =
     Inr (intercalate '', '' ms)"
  by (simp add: error_message_array [where es = "map (\<lambda>m. JObj [(''message'', JStr m)]) ms"]
        map_message_objects join_strings)

lemma error_message_js_error: "error_message js_error = Inl TypeError"
  by (simp add: error_message_def js_error_def)

subsection \<open>handleSubmit by cases on the remote outcome\<close>

text \<open>The three ways through the try block.\<close>

lemma try_block_create_rejected:
  assumes "promise_all (map (createTrustedSite env) (creators s)) = Some e"
  shows "try_block env s =
           (Some e, s\<lparr> createTrustedSite_calls := createTrustedSite_calls s @ creators s \<rparr>)"
  using assms by (simp add: try_block_def onCreateTrustedUrls_def Let_def)

lemma try_block_refresh_rejected:
  assumes "promise_all (map (createTrustedSite env) (creators s)) = None"
    and "refreshApex env = RefreshRejected e"
  shows "try_block env s =
           (Some e,
            s\<lparr> createTrustedSite_calls := createTrustedSite_calls s @ creators s,
               toasts := toasts s @ [\<lparr> title = ''Success'',
                  message = ''Trusted Site created successfully'', variant = Some ''success'' \<rparr>],
               refreshApex_calls := refreshApex_calls s @ [wiredResult s] \<rparr>)"
  using assms by (simp add: try_block_def onCreateTrustedUrls_def Let_def showToast_def)


lemma handleSubmit_valid:
  assumes "target_is_form event" and "checkValidity event"
  shows "handleSubmit event env s =
     (case fst (try_block env (s\<lparr> isLoading := True, isApplyBtnDisabled := True \<rparr>)) of
        None \<Rightarrow> (Returned,
            (snd (try_block env (s\<lparr> isLoading := True, isApplyBtnDisabled := True \<rparr>)))
              \<lparr> isLoading := False \<rparr>)
      | Some e \<Rightarrow>
          (fst (catch_block e
             (snd (try_block env (s\<lparr> isLoading := True, isApplyBtnDisabled := True \<rparr>)))),
           (snd (catch_block e
             (snd (try_block env (s\<lparr> isLoading := True, isApplyBtnDisabled := True \<rparr>)))))
              \<lparr> isLoading := False \<rparr>))"
  using assms by (simp add: handleSubmit_def Let_def split: option.split)

lemma handleSubmit_create_rejected:
  assumes "target_is_form event" and "checkValidity event"
    and "promise_all (map (createTrustedSite env) (creators s)) = Some e"
  shows "handleSubmit event env s =
     (case error_message e of
        Inl x \<Rightarrow>
          (Threw x,
           s\<lparr> isLoading := False, isApplyBtnDisabled := True,
              createTrustedSite_calls := createTrustedSite_calls s @ creators s \<rparr>)
      | Inr msg \<Rightarrow>
          (Returned,
           s\<lparr> isLoading := False, isApplyBtnDisabled := False,
              createTrustedSite_calls := createTrustedSite_calls s @ creators s,
              toasts := toasts s @ [\<lparr> title = ''Error'',
                 message = ''Error creating site: '' @ msg, variant = Some ''error'' \<rparr>],
              console_errors := console_errors s @ [(''Error creating site:'', [e])] \<rparr>))"
proof -
  let ?s = "s\<lparr> isLoading := True, isApplyBtnDisabled := True \<rparr>"
  have p: "promise_all (map (createTrustedSite env) (creators ?s)) = Some e"
    using assms(3) by (simp add: creators_submit_prefix)
  show ?thesis
    unfolding handleSubmit_valid [OF assms(1,2)] try_block_create_rejected [OF p]
    by (simp add: catch_block_def showToast_def console_error_def creators_submit_prefix
          split: sum.split)
qed

lemma handleSubmit_refresh_rejected:
  assumes "target_is_form event" and "checkValidity event"
    and "promise_all (map (createTrustedSite env) (creators s)) = None"
    and "refreshApex env = RefreshRejected e"
  shows "handleSubmit event env s =
     (case error_message e of
        Inl x \<Rightarrow>
          (Threw x,
           s\<lparr> isLoading := False, isApplyBtnDisabled := True,
              createTrustedSite_calls := createTrustedSite_calls s @ creators s,
              toasts := toasts s @ [\<lparr> title = ''Success'',
                 message = ''Trusted Site created successfully'', variant = Some ''success'' \<rparr>],
              refreshApex_calls := refreshApex_calls s @ [wiredResult s] \<rparr>)
      | Inr msg \<Rightarrow>
          (Returned,
           s\<lparr> isLoading := False, isApplyBtnDisabled := False,
              createTrustedSite_calls := createTrustedSite_calls s @ creators s,
              toasts := toasts s @ [\<lparr> title = ''Success'',
                 message = ''Trusted Site created successfully'', variant = Some ''success'' \<rparr>,
                 \<lparr> title = ''Error'',
                 message = ''Error creating site: '' @ msg, variant = Some ''error'' \<rparr>],
              refreshApex_calls := refreshApex_calls s @ [wiredResult s],
              console_errors := console_errors s @ [(''Error creating site:'', [e])] \<rparr>))"
proof -
  let ?s = "s\<lparr> isLoading := True, isApplyBtnDisabled := True \<rparr>"
  have p: "promise_all (map (createTrustedSite env) (creators ?s)) = None"
    using assms(3) by (simp add: creators_submit_prefix)
  show ?thesis
    unfolding handleSubmit_valid [OF assms(1,2)] try_block_refresh_rejected [OF p assms(4)]
    by (simp add: catch_block_def showToast_def console_error_def creators_submit_prefix
          split: sum.split)
qed

lemma valid_event_simps: "target_is_form valid_event" "checkValidity valid_event"
  by (simp_all add: valid_event_def)

text \<open>Scenario D of the specification: of three creation calls one fails with a body
  that is an array holding the message \<^verbatim>\<open>duplicate\<close>.\<close>

lemma scenario_D_duplicate:
  "fst (handleSubmit valid_event (wss_rejected duplicate_error) typed_all) = Returned
   \<and> map message (toasts (snd (handleSubmit valid_event (wss_rejected duplicate_error) typed_all)))
       = [''Error creating site: duplicate'']
   \<and> uiConnector (snd (handleSubmit valid_event (wss_rejected duplicate_error) typed_all)) =
       uiConnector typed_all
   \<and> refreshApex_calls (snd (handleSubmit valid_event (wss_rejected duplicate_error) typed_all)) = []"
proof -
  have p: "promise_all (map (createTrustedSite (wss_rejected duplicate_error)) (creators typed_all))
             = Some duplicate_error"
    by (simp add: creators_typed_all promise_all_def wss_rejected_def reject_wss_with_def
          catalog_distinct)
  have t: "toasts typed_all = []" "refreshApex_calls typed_all = []"
    by (simp_all add: typed_all_def init_def)
  have e: "error_message duplicate_error = Inr ''duplicate''"
    by (simp add: error_message_def duplicate_error_def join_def)
  show ?thesis
    unfolding handleSubmit_create_rejected [OF valid_event_simps p]
    by (simp add: e t)
qed

section \<open>Settings deep links\<close>

text \<open>
  C9. The settings link of every row of the data table is the fixed path
  \<^verbatim>\<open>/lightning/setup/SecurityCspTrustedSite/page?address=%2F\<close> followed by the record's
  Id without its last three characters, and the external-client-app form builds its
  settings URL from \<^verbatim>\<open>ecaId\<close> by the same rule. For an identifier of at least three
  characters the part cut off is a suffix of exactly three characters.
\<close>

theorem settings_link_truncates_id:
  "dataTableData s =
     map (\<lambda>c. \<lparr> developerName = DeveloperName c, endpoint = EndpointUrl c,
                isActive = IsActive c,
                settingsUrl = ''/lightning/setup/SecurityCspTrustedSite/page?address=%2F''
                                @ rev (drop 3 (rev (csp_Id c))) \<rparr>) (csps s)
   \<and> fst (handleNavigateToEcaSettings ecaId) =
       ''/lightning/setup/ManageExternalClientApplication/'' @ rev (drop 3 (rev ecaId))
         @ ''/detail/''
   \<and> (3 \<le> length i \<longrightarrow> (\<exists>suffix. length suffix = 3 \<and> i = slice i 0 (- 3) @ suffix))"
proof -
  have a: "\<And>x. slice x 0 (- 3) = rev (drop 3 (rev x))"
    by (simp add: slice_drop_last3 rev_drop)
  have "3 \<le> length i \<longrightarrow> (\<exists>suffix. length suffix = 3 \<and> i = slice i 0 (- 3) @ suffix)"
  proof
    assume h: "3 \<le> length i"
    have "length (drop (length i - 3) i) = 3" using h by simp
    moreover have "i = slice i 0 (- 3) @ drop (length i - 3) i"
      by (simp add: slice_drop_last3)
    ultimately show "\<exists>suffix. length suffix = 3 \<and> i = slice i 0 (- 3) @ suffix" by blast
  qed
  then show ?thesis
    by (simp add: dataTableData_def handleNavigateToEcaSettings_def a)
qed

theorem settings_link_truncates_id_witness:
  "dataTableData (init\<lparr> csps := [example_csp] \<rparr>) =
     [\<lparr> developerName = ''ui_connector'', endpoint = ''https://ui.example.com'',
        isActive = True,
        settingsUrl = ''/lightning/setup/SecurityCspTrustedSite/page?address=%2F081Ws000000abcd'' \<rparr>]
   \<and> fst (handleNavigateToEcaSettings ''0xIWs000000wxyzMAA'') =
       ''/lightning/setup/ManageExternalClientApplication/0xIWs000000wxyz/detail/''
   \<and> (3::nat) \<le> length ''081Ws000000abcdEAA''
   \<and> (\<exists>suffix. length suffix = 3 \<and>
         ''081Ws000000abcdEAA'' = slice ''081Ws000000abcdEAA'' 0 (- 3) @ suffix)"
  using settings_link_truncates_id [of "init\<lparr> csps := [example_csp] \<rparr>" "''0xIWs000000wxyzMAA''"
      "''081Ws000000abcdEAA''"]
  by (simp add: example_csp_def init_def)

section \<open>Validation\<close>

text \<open>
  C8. When the form's client-side validation fails, \<^verbatim>\<open>handleSubmit\<close> returns at once: it
  dispatches one toast whose text is fixed in the source, and nothing else of the
  component changes. In particular no \<^verbatim>\<open>createTrustedSite\<close> call and no \<^verbatim>\<open>refreshApex\<close>
  call is made, whatever the remote side would have answered.
\<close>

theorem validation_failure_issues_no_call:
  assumes "target_is_form event" and "\<not> checkValidity event"
  shows "handleSubmit event env s =
           (Returned,
            s\<lparr> toasts := toasts s @
                 [\<lparr> title = ''Error'',
                    message = ''Form cannot be submitted due to errors. Please check your Trusted URL fields and try again.'',
                    variant = None \<rparr>] \<rparr>)
         \<and> createTrustedSite_calls (snd (handleSubmit event env s)) = createTrustedSite_calls s
         \<and> refreshApex_calls (snd (handleSubmit event env s)) = refreshApex_calls s"
  using assms by (simp add: handleSubmit_def showToast_def)

theorem validation_failure_issues_no_call_witness:
  "target_is_form invalid_event \<and> \<not> checkValidity invalid_event
   \<and> fst (handleSubmit invalid_event all_fulfilled typed_all) = Returned
   \<and> map message (toasts (snd (handleSubmit invalid_event all_fulfilled typed_all))) =
       [''Form cannot be submitted due to errors. Please check your Trusted URL fields and try again.'']
   \<and> creators typed_all \<noteq> []
   \<and> createTrustedSite_calls (snd (handleSubmit invalid_event all_fulfilled typed_all)) = []"
proof -
  have a: "target_is_form invalid_event" and b: "\<not> checkValidity invalid_event"
    by (simp_all add: invalid_event_def)
  have c: "creators typed_all \<noteq> []"
    by (simp add: creators_def typed_all_def init_def)
  have d: "toasts typed_all = []" "createTrustedSite_calls typed_all = []"
    by (simp_all add: typed_all_def init_def)
  show ?thesis
    using validation_failure_issues_no_call [OF a b, of all_fulfilled typed_all] a b c d
    by simp
qed

section \<open>Processing a snapshot\<close>

text \<open>
  C3 (evaluation at the failing input). The claim: processing the same snapshot again
  yields the same derived state, the inactive names never accumulate. The code appends to
  \<^verbatim>\<open>inactiveTrustedUrlNames\<close> without emptying it first: a snapshot with one inactive
  record, processed twice from the initial state, leaves the name twice in the list and
  the inactive count at 2.
\<close>

theorem same_snapshot_twice_accumulates:
  "inactiveTrustedUrlNames (wiredResources (snapshot [ui_inactive]) init) = [''ui_connector'']
   \<and> numberOfInactiveUrls (wiredResources (snapshot [ui_inactive]) init) = 1
   \<and> inactiveTrustedUrlNames
        (wiredResources (snapshot [ui_inactive]) (wiredResources (snapshot [ui_inactive]) init))
       = [''ui_connector'', ''ui_connector'']
   \<and> numberOfInactiveUrls
        (wiredResources (snapshot [ui_inactive]) (wiredResources (snapshot [ui_inactive]) init))
       = 2
   \<and> inactiveUrlNames
        (wiredResources (snapshot [ui_inactive]) (wiredResources (snapshot [ui_inactive]) init))
       = ''ui_connector, ui_connector''"
  by (simp add: wiredResources_inactive snapshot_def numberOfInactiveUrls_def init_def
        inactiveUrlNames_def ui_inactive_def)

text \<open>
  C4 (counterexample). The claim: every inactive name is a catalog id, a catalog id
  contributes at most one entry, and a record outside the catalog contributes nothing.
  An inactive record named \<^verbatim>\<open>salesforce_domain\<close> is listed and counted, and two inactive
  records named \<^verbatim>\<open>ui_connector\<close> count twice.
\<close>

theorem inactive_not_within_catalog_counterexample:
  "inactiveTrustedUrlNames (wiredResources (snapshot [foreign_inactive]) init)
     = [''salesforce_domain'']
   \<and> ''salesforce_domain'' \<notin> {UI_CONNECTOR, UI_CONNECTOR_WSS, TWILIO_FLEX}
   \<and> numberOfInactiveUrls (wiredResources (snapshot [foreign_inactive]) init) = 1
   \<and> numberOfInactiveUrls (wiredResources (snapshot [ui_inactive, ui_inactive]) init) = 2"
  by (simp add: wiredResources_inactive snapshot_def numberOfInactiveUrls_def init_def
        ui_inactive_def foreign_inactive_def UI_CONNECTOR_def UI_CONNECTOR_WSS_def
        TWILIO_FLEX_def)

text \<open>
  C4 (amended). Starting with an empty inactive list, processing a snapshot leaves in the
  list exactly the names of the snapshot's records whose \<^verbatim>\<open>IsActive\<close> is false, one entry
  per record, in the snapshot's order; the inactive count is the number of those records.
  Every inactive name is the name of a snapshot record, and an inactive name that is a
  catalog id belongs to a present entry: its field is hidden.
\<close>

theorem inactive_lists_every_inactive_record:
  assumes "wire_data r = Some cs" and "inactiveTrustedUrlNames s = []"
  shows "inactiveTrustedUrlNames (wiredResources r s) =
           map DeveloperName (filter (\<lambda>c. \<not> IsActive c) cs)
       \<and> numberOfInactiveUrls (wiredResources r s) = length (filter (\<lambda>c. \<not> IsActive c) cs)
       \<and> set (inactiveTrustedUrlNames (wiredResources r s)) \<subseteq> set (map DeveloperName cs)
       \<and> (UI_CONNECTOR \<in> set (inactiveTrustedUrlNames (wiredResources r s)) \<longrightarrow>
            \<not> isUIConnectorFieldVisible (wiredResources r s))
       \<and> (UI_CONNECTOR_WSS \<in> set (inactiveTrustedUrlNames (wiredResources r s)) \<longrightarrow>
            \<not> isUIConnectorWSFieldVisible (wiredResources r s))
       \<and> (TWILIO_FLEX \<in> set (inactiveTrustedUrlNames (wiredResources r s)) \<longrightarrow>
            \<not> isTwilioFlexFieldVisible (wiredResources r s))"
proof -
  have a: "inactiveTrustedUrlNames (wiredResources r s) =
           map DeveloperName (filter (\<lambda>c. \<not> IsActive c) cs)"
    using assms by (simp add: wiredResources_inactive)
  have b: "set (map DeveloperName (filter (\<lambda>c. \<not> IsActive c) cs)) \<subseteq> set (map DeveloperName cs)"
    by auto
  show ?thesis
    using a b wiredResources_visible [OF assms(1), of s]
    by (auto simp add: numberOfInactiveUrls_def)
qed

theorem inactive_lists_every_inactive_record_witness:
  "wire_data (snapshot [ui_inactive, wss_active, foreign_inactive]) =
     Some [ui_inactive, wss_active, foreign_inactive]
   \<and> inactiveTrustedUrlNames init = []
   \<and> inactiveTrustedUrlNames
       (wiredResources (snapshot [ui_inactive, wss_active, foreign_inactive]) init) =
       [''ui_connector'', ''salesforce_domain'']
   \<and> numberOfInactiveUrls
       (wiredResources (snapshot [ui_inactive, wss_active, foreign_inactive]) init) = 2
   \<and> \<not> isUIConnectorFieldVisible
       (wiredResources (snapshot [ui_inactive, wss_active, foreign_inactive]) init)"
proof -
  have a: "wire_data (snapshot [ui_inactive, wss_active, foreign_inactive]) =
     Some [ui_inactive, wss_active, foreign_inactive]"
    by (simp add: snapshot_def)
  have b: "inactiveTrustedUrlNames init = []" by (simp add: init_def)
  show ?thesis
    using inactive_lists_every_inactive_record [OF a b] a b
    by (simp add: ui_inactive_def wss_active_def foreign_inactive_def UI_CONNECTOR_def)
qed

text \<open>
  C5 (counterexample). The claim: after each snapshot is processed, a field is visible iff
  its id is absent from the snapshot, and an empty snapshot leaves all fields visible and
  the table hidden. After a snapshot with \<^verbatim>\<open>ui_connector\<close>, a snapshot without it (or an
  empty one) leaves the \<^verbatim>\<open>ui_connector\<close> field hidden, and the empty one leaves the table
  visible.
\<close>

theorem later_snapshot_view_state_counterexample:
  "UI_CONNECTOR \<notin> set (map DeveloperName [wss_active])
   \<and> \<not> isUIConnectorFieldVisible
         (wiredResources (snapshot [wss_active]) (wiredResources (snapshot [ui_inactive]) init))
   \<and> \<not> isUIConnectorFieldVisible
         (wiredResources (snapshot []) (wiredResources (snapshot [ui_inactive]) init))
   \<and> isDataTableVisible
         (wiredResources (snapshot []) (wiredResources (snapshot [ui_inactive]) init))"
proof -
  have a: "wire_data (snapshot [wss_active]) = Some [wss_active]"
    and b: "wire_data (snapshot [ui_inactive]) = Some [ui_inactive]"
    and c: "wire_data (snapshot []) = Some []"
    by (simp_all add: snapshot_def)
  have d: "isDataTableVisible (wiredResources (snapshot [ui_inactive]) init)"
    using wiredResources_table [OF b, of init]
    by (simp add: ui_inactive_def UI_CONNECTOR_def)
  have e: "isDataTableVisible
         (wiredResources (snapshot []) (wiredResources (snapshot [ui_inactive]) init))"
    using d c by (simp add: wiredResources_no_data console_error_def)
  have v1: "\<not> isUIConnectorFieldVisible (wiredResources (snapshot [ui_inactive]) init)"
    using wiredResources_visible [OF b, of init]
    by (simp add: ui_inactive_def UI_CONNECTOR_def)
  have v2: "\<not> isUIConnectorFieldVisible
         (wiredResources (snapshot [wss_active]) (wiredResources (snapshot [ui_inactive]) init))"
    using wiredResources_visible [OF a, of "wiredResources (snapshot [ui_inactive]) init"] v1
    by simp
  have v3: "\<not> isUIConnectorFieldVisible
         (wiredResources (snapshot []) (wiredResources (snapshot [ui_inactive]) init))"
    using wiredResources_visible [OF c, of "wiredResources (snapshot [ui_inactive]) init"] v1
    by simp
  have n: "UI_CONNECTOR \<notin> set (map DeveloperName [wss_active])"
    by (simp add: wss_active_def UI_CONNECTOR_def)
  show ?thesis
    using n v2 v3 e by blast
qed

text \<open>
  C5 (amended). After a snapshot is processed, in whatever state, each catalog entry's
  field is visible iff it was visible before and its id is absent from the snapshot; so
  it is visible iff its id is absent whenever the field was visible before or its id is
  in the snapshot (the initial state, and every refetch that still holds the ids seen
  earlier). For a non-empty snapshot the data table is visible iff at least one catalog
  id is present and the apply button is disabled iff all three are; an empty snapshot
  leaves both as they were. In particular an empty snapshot processed in the initial
  state leaves all three fields visible, submit enabled and the table hidden.
\<close>

theorem snapshot_view_state:
  assumes "wire_data r = Some cs"
  shows "isUIConnectorFieldVisible (wiredResources r s) =
           (isUIConnectorFieldVisible s \<and> UI_CONNECTOR \<notin> set (map DeveloperName cs))
       \<and> isUIConnectorWSFieldVisible (wiredResources r s) =
           (isUIConnectorWSFieldVisible s \<and> UI_CONNECTOR_WSS \<notin> set (map DeveloperName cs))
       \<and> isTwilioFlexFieldVisible (wiredResources r s) =
           (isTwilioFlexFieldVisible s \<and> TWILIO_FLEX \<notin> set (map DeveloperName cs))
       \<and> (isUIConnectorFieldVisible s \<or> UI_CONNECTOR \<in> set (map DeveloperName cs) \<longrightarrow>
            isUIConnectorFieldVisible (wiredResources r s) =
              (UI_CONNECTOR \<notin> set (map DeveloperName cs)))
       \<and> (isUIConnectorWSFieldVisible s \<or> UI_CONNECTOR_WSS \<in> set (map DeveloperName cs) \<longrightarrow>
            isUIConnectorWSFieldVisible (wiredResources r s) =
              (UI_CONNECTOR_WSS \<notin> set (map DeveloperName cs)))
       \<and> (isTwilioFlexFieldVisible s \<or> TWILIO_FLEX \<in> set (map DeveloperName cs) \<longrightarrow>
            isTwilioFlexFieldVisible (wiredResources r s) =
              (TWILIO_FLEX \<notin> set (map DeveloperName cs)))
       \<and> isDataTableVisible (wiredResources r s) =
           (if cs = [] then isDataTableVisible s
            else UI_CONNECTOR \<in> set (map DeveloperName cs) \<or>
                 UI_CONNECTOR_WSS \<in> set (map DeveloperName cs) \<or>
                 TWILIO_FLEX \<in> set (map DeveloperName cs))
       \<and> isApplyBtnDisabled (wiredResources r s) =
           (if cs = [] then isApplyBtnDisabled s
            else UI_CONNECTOR \<in> set (map DeveloperName cs) \<and>
                 UI_CONNECTOR_WSS \<in> set (map DeveloperName cs) \<and>
                 TWILIO_FLEX \<in> set (map DeveloperName cs))
       \<and> isUIConnectorFieldVisible (wiredResources (snapshot []) init)
       \<and> isUIConnectorWSFieldVisible (wiredResources (snapshot []) init)
       \<and> isTwilioFlexFieldVisible (wiredResources (snapshot []) init)
       \<and> \<not> isDataTableVisible (wiredResources (snapshot []) init)
       \<and> \<not> isApplyBtnDisabled (wiredResources (snapshot []) init)"
proof -
  have e: "wiredResources (snapshot []) init = init\<lparr> wiredResult := Some (snapshot []) \<rparr>"
    by (simp add: wiredResources_no_data snapshot_def)
  have i: "isUIConnectorFieldVisible (wiredResources (snapshot []) init)
       \<and> isUIConnectorWSFieldVisible (wiredResources (snapshot []) init)
       \<and> isTwilioFlexFieldVisible (wiredResources (snapshot []) init)
       \<and> \<not> isDataTableVisible (wiredResources (snapshot []) init)
       \<and> \<not> isApplyBtnDisabled (wiredResources (snapshot []) init)"
    unfolding e by (simp add: init_def)
  note v = wiredResources_visible [OF assms, of s]
  have w: "(isUIConnectorFieldVisible s \<or> UI_CONNECTOR \<in> set (map DeveloperName cs) \<longrightarrow>
            isUIConnectorFieldVisible (wiredResources r s) =
              (UI_CONNECTOR \<notin> set (map DeveloperName cs)))
       \<and> (isUIConnectorWSFieldVisible s \<or> UI_CONNECTOR_WSS \<in> set (map DeveloperName cs) \<longrightarrow>
            isUIConnectorWSFieldVisible (wiredResources r s) =
              (UI_CONNECTOR_WSS \<notin> set (map DeveloperName cs)))
       \<and> (isTwilioFlexFieldVisible s \<or> TWILIO_FLEX \<in> set (map DeveloperName cs) \<longrightarrow>
            isTwilioFlexFieldVisible (wiredResources r s) =
              (TWILIO_FLEX \<notin> set (map DeveloperName cs)))"
    using v by blast
  have t: "isDataTableVisible (wiredResources r s) =
           (if cs = [] then isDataTableVisible s
            else UI_CONNECTOR \<in> set (map DeveloperName cs) \<or>
                 UI_CONNECTOR_WSS \<in> set (map DeveloperName cs) \<or>
                 TWILIO_FLEX \<in> set (map DeveloperName cs))
       \<and> isApplyBtnDisabled (wiredResources r s) =
           (if cs = [] then isApplyBtnDisabled s
            else UI_CONNECTOR \<in> set (map DeveloperName cs) \<and>
                 UI_CONNECTOR_WSS \<in> set (map DeveloperName cs) \<and>
                 TWILIO_FLEX \<in> set (map DeveloperName cs))"
  proof (cases "cs = []")
    case True
    then show ?thesis using assms by (simp add: wiredResources_no_data console_error_def)
  next
    case False
    then show ?thesis using wiredResources_table [OF assms False, of s] by simp
  qed
  show ?thesis using i v w t by simp
qed

text \<open>The refetch after \<^verbatim>\<open>ui_connector_wss\<close> has been created: the first snapshot held
  \<^verbatim>\<open>ui_connector\<close>, the second holds both.\<close>

theorem snapshot_view_state_witness:
  "wire_data (snapshot [ui_inactive, wss_active]) = Some [ui_inactive, wss_active]
   \<and> \<not> isUIConnectorFieldVisible (wiredResources (snapshot [ui_inactive]) init)
   \<and> UI_CONNECTOR \<in> set (map DeveloperName [ui_inactive, wss_active])
   \<and> isUIConnectorWSFieldVisible (wiredResources (snapshot [ui_inactive]) init)
   \<and> isTwilioFlexFieldVisible (wiredResources (snapshot [ui_inactive]) init)
   \<and> \<not> isUIConnectorFieldVisible
         (wiredResources (snapshot [ui_inactive, wss_active])
            (wiredResources (snapshot [ui_inactive]) init))
   \<and> \<not> isUIConnectorWSFieldVisible
         (wiredResources (snapshot [ui_inactive, wss_active])
            (wiredResources (snapshot [ui_inactive]) init))
   \<and> isTwilioFlexFieldVisible
         (wiredResources (snapshot [ui_inactive, wss_active])
            (wiredResources (snapshot [ui_inactive]) init))
   \<and> isDataTableVisible
         (wiredResources (snapshot [ui_inactive, wss_active])
            (wiredResources (snapshot [ui_inactive]) init))
   \<and> \<not> isApplyBtnDisabled
         (wiredResources (snapshot [ui_inactive, wss_active])
            (wiredResources (snapshot [ui_inactive]) init))"
proof -
  let ?s = "wiredResources (snapshot [ui_inactive]) init"
  have d: "wire_data (snapshot [ui_inactive, wss_active]) = Some [ui_inactive, wss_active]"
    and d1: "wire_data (snapshot [ui_inactive]) = Some [ui_inactive]"
    by (simp_all add: snapshot_def)
  have f: "\<not> isUIConnectorFieldVisible ?s" "isUIConnectorWSFieldVisible ?s"
    "isTwilioFlexFieldVisible ?s"
    using wiredResources_visible [OF d1, of init]
    by (simp_all add: init_def ui_inactive_def UI_CONNECTOR_def UI_CONNECTOR_WSS_def
          TWILIO_FLEX_def)
  have m: "UI_CONNECTOR \<in> set (map DeveloperName [ui_inactive, wss_active])"
    by (simp add: ui_inactive_def UI_CONNECTOR_def)
  show ?thesis
    using snapshot_view_state [OF d, of ?s] d f m
    by (simp add: ui_inactive_def wss_active_def UI_CONNECTOR_def UI_CONNECTOR_WSS_def
          TWILIO_FLEX_def)
qed

section \<open>Submitting the form\<close>

text \<open>
  C1 (counterexample). The claim: no creation request is dispatched for a catalog id that
  is present, even when its input holds a value. The user types a URL for \<^verbatim>\<open>ui_connector\<close>,
  then a snapshot arrives that holds \<^verbatim>\<open>ui_connector\<close>: the entry is present and its field
  hidden, and \<^verbatim>\<open>onCreateTrustedUrls\<close> still calls \<^verbatim>\<open>createTrustedSite\<close> for it.
\<close>

theorem present_entry_resubmitted_counterexample:
  "UI_CONNECTOR \<in> set (map DeveloperName
       (csps (wiredResources (snapshot [example_csp])
                (handleUrlChange UI_CONNECTOR ''https://ui.example.com'' init))))
   \<and> \<not> isUIConnectorFieldVisible
         (wiredResources (snapshot [example_csp])
            (handleUrlChange UI_CONNECTOR ''https://ui.example.com'' init))
   \<and> createTrustedSite_calls (snd (onCreateTrustedUrls always_fulfilled
         (wiredResources (snapshot [example_csp])
            (handleUrlChange UI_CONNECTOR ''https://ui.example.com'' init))))
       = [\<lparr> siteUrl = ''https://ui.example.com'', siteName = UI_CONNECTOR \<rparr>]"
proof -
  let ?s = "handleUrlChange UI_CONNECTOR ''https://ui.example.com'' init"
  have d: "wire_data (snapshot [example_csp]) = Some [example_csp]"
    by (simp add: snapshot_def)
  have s: "?s = init\<lparr> uiConnector := ''https://ui.example.com'' \<rparr>"
    by (simp add: handleUrlChange_def)
  have c: "csps (wiredResources (snapshot [example_csp]) ?s) = [example_csp]"
    by (simp add: wiredResources_csps [OF d])
  have n: "UI_CONNECTOR \<in> set (map DeveloperName [example_csp])"
    by (simp add: example_csp_def UI_CONNECTOR_def)
  have v: "\<not> isUIConnectorFieldVisible (wiredResources (snapshot [example_csp]) ?s)"
    using wiredResources_visible [OF d, of ?s] n by simp
  have k: "creators (wiredResources (snapshot [example_csp]) ?s) = creators ?s"
    by (rule creators_cong) (simp_all add: wiredResources_frame)
  have k': "creators ?s = [\<lparr> siteUrl = ''https://ui.example.com'', siteName = UI_CONNECTOR \<rparr>]"
    unfolding s by (simp add: creators_def init_def)
  have "createTrustedSite_calls ?s = []"
    unfolding s by (simp add: init_def)
  then have l: "createTrustedSite_calls (wiredResources (snapshot [example_csp]) ?s) = []"
    by (simp add: wiredResources_frame)
  have r: "createTrustedSite_calls (snd (onCreateTrustedUrls always_fulfilled
         (wiredResources (snapshot [example_csp]) ?s)))
       = [\<lparr> siteUrl = ''https://ui.example.com'', siteName = UI_CONNECTOR \<rparr>]"
    by (simp add: onCreateTrustedUrls_def k k' l)
  show ?thesis using c n v r by simp
qed

text \<open>
  C1 (amended). The request list is built from the form input alone. It holds a request
  for \<^verbatim>\<open>ui_connector\<close> exactly when that text value is non-empty, one for
  \<^verbatim>\<open>ui_connector_wss\<close> exactly when that text value is non-empty, one for \<^verbatim>\<open>twilio_flex\<close>
  exactly when the checkbox selection contains it, and none for any other name; every
  request of the list is dispatched; and processing a snapshot does not change the list.
  So a present id gets no creation request exactly when its input is empty or unselected.
\<close>

theorem requests_follow_form_input:
  "createTrustedSite_calls (snd (onCreateTrustedUrls rpc s)) =
     createTrustedSite_calls s @ creators s
   \<and> (UI_CONNECTOR \<in> siteName ` set (creators s)) = (uiConnector s \<noteq> [])
   \<and> (UI_CONNECTOR_WSS \<in> siteName ` set (creators s)) = (uiConnectorWss s \<noteq> [])
   \<and> (TWILIO_FLEX \<in> siteName ` set (creators s)) = (TWILIO_FLEX \<in> set (checkboxGroupValue s))
   \<and> siteName ` set (creators s) \<subseteq> {UI_CONNECTOR, UI_CONNECTOR_WSS, TWILIO_FLEX}
   \<and> creators (wiredResources r s) = creators s"
proof -
  have "creators (wiredResources r s) = creators s"
    by (rule creators_cong) (simp_all add: wiredResources_frame)
  then show ?thesis
    using creators_names [of s] by (simp add: onCreateTrustedUrls_def)
qed

theorem requests_follow_form_input_witness:
  "createTrustedSite_calls (snd (onCreateTrustedUrls always_fulfilled
       (wiredResources (snapshot [example_csp]) (handleCheckbox [TWILIO_FLEX] init)))) =
     [\<lparr> siteUrl = ''https://flex.twilio.com'', siteName = TWILIO_FLEX \<rparr>]
   \<and> UI_CONNECTOR \<notin> siteName ` set (creators
       (wiredResources (snapshot [example_csp]) (handleCheckbox [TWILIO_FLEX] init)))"
proof -
  let ?s = "handleCheckbox [TWILIO_FLEX] init"
  have a: "creators ?s = [\<lparr> siteUrl = ''https://flex.twilio.com'', siteName = TWILIO_FLEX \<rparr>]"
    by (simp add: creators_def handleCheckbox_def init_def)
  have b: "createTrustedSite_calls (wiredResources (snapshot [example_csp]) ?s) = []"
    by (simp add: wiredResources_frame handleCheckbox_def init_def)
  have c: "uiConnector (wiredResources (snapshot [example_csp]) ?s) = []"
    by (simp add: wiredResources_frame handleCheckbox_def init_def)
  show ?thesis
    using requests_follow_form_input [of always_fulfilled
        "wiredResources (snapshot [example_csp]) ?s" "snapshot [example_csp]"]
      requests_follow_form_input [of always_fulfilled ?s "snapshot [example_csp]"] a b c
    by simp
qed




text \<open>
  C6 (evaluation at the failing input). The claim: when a creation request fails, the
  form input is not reset, the snapshot is not refetched, and a single error notification
  is shown. Three requests are dispatched and the one for \<^verbatim>\<open>ui_connector_wss\<close> is rejected
  with a value that has no body: the input is kept and no refresh is made, but the
  \<^verbatim>\<open>catch\<close> block raises a TypeError on \<^verbatim>\<open>error.body.message\<close> before it reaches the toast,
  so no notification is shown at all.
\<close>

theorem failed_creation_without_body_shows_no_notification:
  "fst (handleSubmit valid_event (wss_rejected js_error) typed_all) = Threw TypeError
   \<and> toasts (snd (handleSubmit valid_event (wss_rejected js_error) typed_all)) = []
   \<and> uiConnector (snd (handleSubmit valid_event (wss_rejected js_error) typed_all)) =
       uiConnector typed_all
   \<and> uiConnectorWss (snd (handleSubmit valid_event (wss_rejected js_error) typed_all)) =
       uiConnectorWss typed_all
   \<and> checkboxGroupValue (snd (handleSubmit valid_event (wss_rejected js_error) typed_all)) =
       checkboxGroupValue typed_all
   \<and> refreshApex_calls (snd (handleSubmit valid_event (wss_rejected js_error) typed_all)) = []"
proof -
  have p: "promise_all (map (createTrustedSite (wss_rejected js_error)) (creators typed_all))
             = Some js_error"
    by (simp add: creators_typed_all promise_all_def wss_rejected_def reject_wss_with_def
          catalog_distinct)
  have t: "toasts typed_all = []" "refreshApex_calls typed_all = []"
    by (simp_all add: typed_all_def init_def)
  show ?thesis
    unfolding handleSubmit_create_rejected [OF valid_event_simps p]
    by (simp add: error_message_js_error t)
qed

text \<open>
  C7 (evaluation at the failing input). The claim: every rejection is caught and turned
  into a notification, with the fallback \<^verbatim>\<open>Unknown error\<close> also for errors that carry no
  body. For a rejection without a body (an \<^verbatim>\<open>Error\<close> with only a message, an empty object,
  undefined) the message computation raises a TypeError, which leaves \<^verbatim>\<open>handleSubmit\<close>,
  and no notification is dispatched.
\<close>

theorem rejection_without_body_escapes:
  "error_message js_error = Inl TypeError
   \<and> error_message (JObj []) = Inl TypeError
   \<and> error_message JUndefined = Inl TypeError
   \<and> fst (handleSubmit valid_event (all_rejected js_error) typed_ui) = Threw TypeError
   \<and> toasts (snd (handleSubmit valid_event (all_rejected js_error) typed_ui)) = []"
proof -
  have p: "promise_all (map (createTrustedSite (all_rejected js_error)) (creators typed_ui))
             = Some js_error"
    by (simp add: creators_typed_ui promise_all_def all_rejected_def always_rejected_def)
  have t: "toasts typed_ui = []"
    by (simp add: typed_ui_def init_def)
  have e: "error_message (JObj []) = Inl TypeError" "error_message JUndefined = Inl TypeError"
    by (simp_all add: error_message_def)
  show ?thesis
    unfolding handleSubmit_create_rejected [OF valid_event_simps p]
    by (simp add: error_message_js_error t e)
qed

text \<open>
  C10 (evaluation at the failing input). The claim: when every creation succeeds and the
  refresh rejects, the success notification has been dispatched, an error notification
  follows, and the input is kept. When the refresh rejects with a value that has no body,
  the success notification is the only one: the \<^verbatim>\<open>catch\<close> block raises a TypeError before
  its toast. The input is kept.
\<close>

theorem failed_refresh_without_body_shows_success_only:
  "fst (handleSubmit valid_event (refresh_rejected js_error) typed_ui) = Threw TypeError
   \<and> toasts (snd (handleSubmit valid_event (refresh_rejected js_error) typed_ui)) =
       [\<lparr> title = ''Success'', message = ''Trusted Site created successfully'',
          variant = Some ''success'' \<rparr>]
   \<and> uiConnector (snd (handleSubmit valid_event (refresh_rejected js_error) typed_ui)) =
       ''https://ui.example.com''"
proof -
  have p: "promise_all (map (createTrustedSite (refresh_rejected js_error)) (creators typed_ui))
             = None"
    by (simp add: creators_typed_ui promise_all_def refresh_rejected_def always_fulfilled_def)
  have r: "refreshApex (refresh_rejected js_error) = RefreshRejected js_error"
    by (simp add: refresh_rejected_def)
  have t: "toasts typed_ui = []" "uiConnector typed_ui = ''https://ui.example.com''"
    by (simp_all add: typed_ui_def init_def)
  show ?thesis
    unfolding handleSubmit_refresh_rejected [OF valid_event_simps p r]
    by (simp add: error_message_js_error t)
qed

end
